theory Spec2Isabelle
  imports Main
begin

section \<open>The dispatch layer of the CUDA fuser IR (torch/csrc/jit/codegen/cuda/dispatch.h)\<close>

text \<open>
  The header declares five structs whose virtual member functions are overloaded on the
  static type of an IR node pointer: \<^verbatim>\<open>OptOutDispatch\<close>, \<^verbatim>\<open>OptInConstDispatch\<close>,
  \<^verbatim>\<open>OptInDispatch\<close>, \<^verbatim>\<open>OptOutMutator\<close> and \<^verbatim>\<open>OptInMutator\<close>.
  A member function is modelled as a function from the pointer argument and the program
  state to either an error (a thrown exception) or the result together with the state
  the call leaves behind.
\<close>

subsection \<open>Node kinds and pointers\<close>

text \<open>
  The ten forward-declared node structs, in the order of the header (lines 56--68).
  \<^verbatim>\<open>Int\<close> is written \<open>Int_kind\<close>, the plain name being HOL's intersection.
\<close>

datatype kind =
    IterDomain | TensorDomain | TensorView | Float | Int_kind
  | Split | Merge | Reorder | UnaryOp | BinaryOp

text \<open>The header groups the structs under the comments \<^verbatim>\<open>// Vals\<close> and \<^verbatim>\<open>// Exprs\<close>.\<close>

datatype family = Val | Expr

fun family_of :: "kind \<Rightarrow> family" where
  "family_of IterDomain = Val"
| "family_of TensorDomain = Val"
| "family_of TensorView = Val"
| "family_of Float = Val"
| "family_of Int_kind = Val"
| "family_of Split = Expr"
| "family_of Merge = Expr"
| "family_of Reorder = Expr"
| "family_of UnaryOp = Expr"
| "family_of BinaryOp = Expr"

text \<open>The name of each struct as the source spells it.\<close>

fun kind_name :: "kind \<Rightarrow> string" where
  "kind_name IterDomain = ''IterDomain''"
| "kind_name TensorDomain = ''TensorDomain''"
| "kind_name TensorView = ''TensorView''"
| "kind_name Float = ''Float''"
| "kind_name Int_kind = ''Int''"
| "kind_name Split = ''Split''"
| "kind_name Merge = ''Merge''"
| "kind_name Reorder = ''Reorder''"
| "kind_name UnaryOp = ''UnaryOp''"
| "kind_name BinaryOp = ''BinaryOp''"

definition all_kinds :: "kind list" where
  "all_kinds = [IterDomain, TensorDomain, TensorView, Float, Int_kind,
                Split, Merge, Reorder, UnaryOp, BinaryOp]"

text \<open>A raw C++ pointer: the null pointer or an address.\<close>

datatype ptr = Null | Addr nat

subsection \<open>Failures\<close>

text \<open>
  \<open>InternalAssert msg\<close> is the exception of a failed \<^verbatim>\<open>TORCH_INTERNAL_ASSERT\<close> with its
  message. \<open>MissingReturn\<close> stands for control reaching the end of a function whose
  return type is not \<^verbatim>\<open>void\<close>. \<open>NullDereference\<close> stands for reading through a pointer
  that refers to no node. \<open>UnknownNodeKind\<close> is the failure the specification names for
  the router.
\<close>

datatype error =
    InternalAssert string
  | MissingReturn
  | NullDereference
  | UnknownNodeKind

text \<open>
  Modelled from the spec: the macro \<^verbatim>\<open>TORCH_INTERNAL_ASSERT\<close> comes from
  \<^verbatim>\<open>c10/util/Exception.h\<close>, which is not among the sources. Following section 7 of the
  specification, a failed assertion is an immediate, non-recoverable failure that carries
  its diagnostic; a passed assertion does nothing.
\<close>

definition TORCH_INTERNAL_ASSERT :: "bool \<Rightarrow> string \<Rightarrow> error + unit" where
  "TORCH_INTERNAL_ASSERT cond msg = (if cond then Inr () else Inl (InternalAssert msg))"

text \<open>
  The specification's names for the two failures of the opt-in strategies, as the
  assertion failures whose diagnostic names the kind.
\<close>

definition HandlerNotOverridden :: "kind \<Rightarrow> error" where
  "HandlerNotOverridden K = InternalAssert (''Handle not overriden for '' @ kind_name K @ ''.'')"

definition MutatorNotOverridden :: "kind \<Rightarrow> error" where
  "MutatorNotOverridden K = InternalAssert (''Mutate not overriden for '' @ kind_name K @ ''.'')"

subsection \<open>OptOutDispatch: the concrete handlers (lines 89--101)\<close>

text \<open>Each body is \<^verbatim>\<open>{}\<close>: the call returns and the state is the one it was given.\<close>

definition OptOutDispatch_handle_IterDomain :: "ptr \<Rightarrow> 'w \<Rightarrow> error + 'w" where
  "OptOutDispatch_handle_IterDomain p w = Inr w"

definition OptOutDispatch_handle_TensorDomain :: "ptr \<Rightarrow> 'w \<Rightarrow> error + 'w" where
  "OptOutDispatch_handle_TensorDomain p w = Inr w"

definition OptOutDispatch_handle_TensorView :: "ptr \<Rightarrow> 'w \<Rightarrow> error + 'w" where
  "OptOutDispatch_handle_TensorView p w = Inr w"

definition OptOutDispatch_handle_Float :: "ptr \<Rightarrow> 'w \<Rightarrow> error + 'w" where
  "OptOutDispatch_handle_Float p w = Inr w"

definition OptOutDispatch_handle_Int :: "ptr \<Rightarrow> 'w \<Rightarrow> error + 'w" where
  "OptOutDispatch_handle_Int p w = Inr w"

definition OptOutDispatch_handle_Split :: "ptr \<Rightarrow> 'w \<Rightarrow> error + 'w" where
  "OptOutDispatch_handle_Split p w = Inr w"

definition OptOutDispatch_handle_Merge :: "ptr \<Rightarrow> 'w \<Rightarrow> error + 'w" where
  "OptOutDispatch_handle_Merge p w = Inr w"

definition OptOutDispatch_handle_Reorder :: "ptr \<Rightarrow> 'w \<Rightarrow> error + 'w" where
  "OptOutDispatch_handle_Reorder p w = Inr w"

definition OptOutDispatch_handle_UnaryOp :: "ptr \<Rightarrow> 'w \<Rightarrow> error + 'w" where
  "OptOutDispatch_handle_UnaryOp p w = Inr w"

definition OptOutDispatch_handle_BinaryOp :: "ptr \<Rightarrow> 'w \<Rightarrow> error + 'w" where
  "OptOutDispatch_handle_BinaryOp p w = Inr w"

text \<open>
  Overload resolution: a call \<^verbatim>\<open>handle(p)\<close> with \<^verbatim>\<open>p\<close> of static type \<^verbatim>\<open>K*\<close> selects the
  overload declared for \<^verbatim>\<open>K\<close>.
\<close>

fun OptOutDispatch_handle :: "kind \<Rightarrow> ptr \<Rightarrow> 'w \<Rightarrow> error + 'w" where
  "OptOutDispatch_handle IterDomain = OptOutDispatch_handle_IterDomain"
| "OptOutDispatch_handle TensorDomain = OptOutDispatch_handle_TensorDomain"
| "OptOutDispatch_handle TensorView = OptOutDispatch_handle_TensorView"
| "OptOutDispatch_handle Float = OptOutDispatch_handle_Float"
| "OptOutDispatch_handle Int_kind = OptOutDispatch_handle_Int"
| "OptOutDispatch_handle Split = OptOutDispatch_handle_Split"
| "OptOutDispatch_handle Merge = OptOutDispatch_handle_Merge"
| "OptOutDispatch_handle Reorder = OptOutDispatch_handle_Reorder"
| "OptOutDispatch_handle UnaryOp = OptOutDispatch_handle_UnaryOp"
| "OptOutDispatch_handle BinaryOp = OptOutDispatch_handle_BinaryOp"

subsection \<open>OptInConstDispatch: the concrete handlers (lines 119--151)\<close>

text \<open>
  Each body is one \<^verbatim>\<open>TORCH_INTERNAL_ASSERT(false, msg)\<close>; were the assertion to pass, the
  function would return with the state unchanged.
\<close>

definition OptInConstDispatch_handle_IterDomain :: "ptr \<Rightarrow> 'w \<Rightarrow> error + 'w" where
  "OptInConstDispatch_handle_IterDomain p w =
     (case TORCH_INTERNAL_ASSERT False ''Handle not overriden for IterDomain.'' of
        Inl e \<Rightarrow> Inl e | Inr u \<Rightarrow> Inr w)"

definition OptInConstDispatch_handle_TensorDomain :: "ptr \<Rightarrow> 'w \<Rightarrow> error + 'w" where
  "OptInConstDispatch_handle_TensorDomain p w =
     (case TORCH_INTERNAL_ASSERT False ''Handle not overriden for TensorDomain.'' of
        Inl e \<Rightarrow> Inl e | Inr u \<Rightarrow> Inr w)"

definition OptInConstDispatch_handle_TensorView :: "ptr \<Rightarrow> 'w \<Rightarrow> error + 'w" where
  "OptInConstDispatch_handle_TensorView p w =
     (case TORCH_INTERNAL_ASSERT False ''Handle not overriden for TensorView.'' of
        Inl e \<Rightarrow> Inl e | Inr u \<Rightarrow> Inr w)"

definition OptInConstDispatch_handle_Float :: "ptr \<Rightarrow> 'w \<Rightarrow> error + 'w" where
  "OptInConstDispatch_handle_Float p w =
     (case TORCH_INTERNAL_ASSERT False ''Handle not overriden for Float.'' of
        Inl e \<Rightarrow> Inl e | Inr u \<Rightarrow> Inr w)"

definition OptInConstDispatch_handle_Int :: "ptr \<Rightarrow> 'w \<Rightarrow> error + 'w" where
  "OptInConstDispatch_handle_Int p w =
     (case TORCH_INTERNAL_ASSERT False ''Handle not overriden for Int.'' of
        Inl e \<Rightarrow> Inl e | Inr u \<Rightarrow> Inr w)"

definition OptInConstDispatch_handle_Split :: "ptr \<Rightarrow> 'w \<Rightarrow> error + 'w" where
  "OptInConstDispatch_handle_Split p w =
     (case TORCH_INTERNAL_ASSERT False ''Handle not overriden for Split.'' of
        Inl e \<Rightarrow> Inl e | Inr u \<Rightarrow> Inr w)"

definition OptInConstDispatch_handle_Merge :: "ptr \<Rightarrow> 'w \<Rightarrow> error + 'w" where
  "OptInConstDispatch_handle_Merge p w =
     (case TORCH_INTERNAL_ASSERT False ''Handle not overriden for Merge.'' of
        Inl e \<Rightarrow> Inl e | Inr u \<Rightarrow> Inr w)"

definition OptInConstDispatch_handle_Reorder :: "ptr \<Rightarrow> 'w \<Rightarrow> error + 'w" where
  "OptInConstDispatch_handle_Reorder p w =
     (case TORCH_INTERNAL_ASSERT False ''Handle not overriden for Reorder.'' of
        Inl e \<Rightarrow> Inl e | Inr u \<Rightarrow> Inr w)"

definition OptInConstDispatch_handle_UnaryOp :: "ptr \<Rightarrow> 'w \<Rightarrow> error + 'w" where
  "OptInConstDispatch_handle_UnaryOp p w =
     (case TORCH_INTERNAL_ASSERT False ''Handle not overriden for UnaryOp.'' of
        Inl e \<Rightarrow> Inl e | Inr u \<Rightarrow> Inr w)"

definition OptInConstDispatch_handle_BinaryOp :: "ptr \<Rightarrow> 'w \<Rightarrow> error + 'w" where
  "OptInConstDispatch_handle_BinaryOp p w =
     (case TORCH_INTERNAL_ASSERT False ''Handle not overriden for BinaryOp.'' of
        Inl e \<Rightarrow> Inl e | Inr u \<Rightarrow> Inr w)"

fun OptInConstDispatch_handle :: "kind \<Rightarrow> ptr \<Rightarrow> 'w \<Rightarrow> error + 'w" where
  "OptInConstDispatch_handle IterDomain = OptInConstDispatch_handle_IterDomain"
| "OptInConstDispatch_handle TensorDomain = OptInConstDispatch_handle_TensorDomain"
| "OptInConstDispatch_handle TensorView = OptInConstDispatch_handle_TensorView"
| "OptInConstDispatch_handle Float = OptInConstDispatch_handle_Float"
| "OptInConstDispatch_handle Int_kind = OptInConstDispatch_handle_Int"
| "OptInConstDispatch_handle Split = OptInConstDispatch_handle_Split"
| "OptInConstDispatch_handle Merge = OptInConstDispatch_handle_Merge"
| "OptInConstDispatch_handle Reorder = OptInConstDispatch_handle_Reorder"
| "OptInConstDispatch_handle UnaryOp = OptInConstDispatch_handle_UnaryOp"
| "OptInConstDispatch_handle BinaryOp = OptInConstDispatch_handle_BinaryOp"

subsection \<open>OptInDispatch: the concrete handlers (lines 169--201)\<close>

definition OptInDispatch_handle_IterDomain :: "ptr \<Rightarrow> 'w \<Rightarrow> error + 'w" where
  "OptInDispatch_handle_IterDomain p w =
     (case TORCH_INTERNAL_ASSERT False ''Handle not overriden for IterDomain.'' of
        Inl e \<Rightarrow> Inl e | Inr u \<Rightarrow> Inr w)"

definition OptInDispatch_handle_TensorDomain :: "ptr \<Rightarrow> 'w \<Rightarrow> error + 'w" where
  "OptInDispatch_handle_TensorDomain p w =
     (case TORCH_INTERNAL_ASSERT False ''Handle not overriden for TensorDomain.'' of
        Inl e \<Rightarrow> Inl e | Inr u \<Rightarrow> Inr w)"

definition OptInDispatch_handle_TensorView :: "ptr \<Rightarrow> 'w \<Rightarrow> error + 'w" where
  "OptInDispatch_handle_TensorView p w =
     (case TORCH_INTERNAL_ASSERT False ''Handle not overriden for TensorView.'' of
        Inl e \<Rightarrow> Inl e | Inr u \<Rightarrow> Inr w)"

definition OptInDispatch_handle_Float :: "ptr \<Rightarrow> 'w \<Rightarrow> error + 'w" where
  "OptInDispatch_handle_Float p w =
     (case TORCH_INTERNAL_ASSERT False ''Handle not overriden for Float.'' of
        Inl e \<Rightarrow> Inl e | Inr u \<Rightarrow> Inr w)"

definition OptInDispatch_handle_Int :: "ptr \<Rightarrow> 'w \<Rightarrow> error + 'w" where
  "OptInDispatch_handle_Int p w =
     (case TORCH_INTERNAL_ASSERT False ''Handle not overriden for Int.'' of
        Inl e \<Rightarrow> Inl e | Inr u \<Rightarrow> Inr w)"

definition OptInDispatch_handle_Split :: "ptr \<Rightarrow> 'w \<Rightarrow> error + 'w" where
  "OptInDispatch_handle_Split p w =
     (case TORCH_INTERNAL_ASSERT False ''Handle not overriden for Split.'' of
        Inl e \<Rightarrow> Inl e | Inr u \<Rightarrow> Inr w)"

definition OptInDispatch_handle_Merge :: "ptr \<Rightarrow> 'w \<Rightarrow> error + 'w" where
  "OptInDispatch_handle_Merge p w =
     (case TORCH_INTERNAL_ASSERT False ''Handle not overriden for Merge.'' of
        Inl e \<Rightarrow> Inl e | Inr u \<Rightarrow> Inr w)"

definition OptInDispatch_handle_Reorder :: "ptr \<Rightarrow> 'w \<Rightarrow> error + 'w" where
  "OptInDispatch_handle_Reorder p w =
     (case TORCH_INTERNAL_ASSERT False ''Handle not overriden for Reorder.'' of
        Inl e \<Rightarrow> Inl e | Inr u \<Rightarrow> Inr w)"

definition OptInDispatch_handle_UnaryOp :: "ptr \<Rightarrow> 'w \<Rightarrow> error + 'w" where
  "OptInDispatch_handle_UnaryOp p w =
     (case TORCH_INTERNAL_ASSERT False ''Handle not overriden for UnaryOp.'' of
        Inl e \<Rightarrow> Inl e | Inr u \<Rightarrow> Inr w)"

definition OptInDispatch_handle_BinaryOp :: "ptr \<Rightarrow> 'w \<Rightarrow> error + 'w" where
  "OptInDispatch_handle_BinaryOp p w =
     (case TORCH_INTERNAL_ASSERT False ''Handle not overriden for BinaryOp.'' of
        Inl e \<Rightarrow> Inl e | Inr u \<Rightarrow> Inr w)"

fun OptInDispatch_handle :: "kind \<Rightarrow> ptr \<Rightarrow> 'w \<Rightarrow> error + 'w" where
  "OptInDispatch_handle IterDomain = OptInDispatch_handle_IterDomain"
| "OptInDispatch_handle TensorDomain = OptInDispatch_handle_TensorDomain"
| "OptInDispatch_handle TensorView = OptInDispatch_handle_TensorView"
| "OptInDispatch_handle Float = OptInDispatch_handle_Float"
| "OptInDispatch_handle Int_kind = OptInDispatch_handle_Int"
| "OptInDispatch_handle Split = OptInDispatch_handle_Split"
| "OptInDispatch_handle Merge = OptInDispatch_handle_Merge"
| "OptInDispatch_handle Reorder = OptInDispatch_handle_Reorder"
| "OptInDispatch_handle UnaryOp = OptInDispatch_handle_UnaryOp"
| "OptInDispatch_handle BinaryOp = OptInDispatch_handle_BinaryOp"

subsection \<open>OptInMutator: the concrete handlers (lines 252--284)\<close>

text \<open>
  The return type is \<^verbatim>\<open>Statement*\<close> and the body holds the assertion only: past the
  assertion, control would reach the end of the function with nothing to return.
\<close>

definition OptInMutator_mutate_IterDomain :: "ptr \<Rightarrow> 'w \<Rightarrow> error + ptr \<times> 'w" where
  "OptInMutator_mutate_IterDomain p w =
     (case TORCH_INTERNAL_ASSERT False ''Mutate not overriden for IterDomain.'' of
        Inl e \<Rightarrow> Inl e | Inr u \<Rightarrow> Inl MissingReturn)"

definition OptInMutator_mutate_TensorDomain :: "ptr \<Rightarrow> 'w \<Rightarrow> error + ptr \<times> 'w" where
  "OptInMutator_mutate_TensorDomain p w =
     (case TORCH_INTERNAL_ASSERT False ''Mutate not overriden for TensorDomain.'' of
        Inl e \<Rightarrow> Inl e | Inr u \<Rightarrow> Inl MissingReturn)"

definition OptInMutator_mutate_TensorView :: "ptr \<Rightarrow> 'w \<Rightarrow> error + ptr \<times> 'w" where
  "OptInMutator_mutate_TensorView p w =
     (case TORCH_INTERNAL_ASSERT False ''Mutate not overriden for TensorView.'' of
        Inl e \<Rightarrow> Inl e | Inr u \<Rightarrow> Inl MissingReturn)"

definition OptInMutator_mutate_Float :: "ptr \<Rightarrow> 'w \<Rightarrow> error + ptr \<times> 'w" where
  "OptInMutator_mutate_Float p w =
     (case TORCH_INTERNAL_ASSERT False ''Mutate not overriden for Float.'' of
        Inl e \<Rightarrow> Inl e | Inr u \<Rightarrow> Inl MissingReturn)"

definition OptInMutator_mutate_Int :: "ptr \<Rightarrow> 'w \<Rightarrow> error + ptr \<times> 'w" where
  "OptInMutator_mutate_Int p w =
     (case TORCH_INTERNAL_ASSERT False ''Mutate not overriden for Int.'' of
        Inl e \<Rightarrow> Inl e | Inr u \<Rightarrow> Inl MissingReturn)"

definition OptInMutator_mutate_Split :: "ptr \<Rightarrow> 'w \<Rightarrow> error + ptr \<times> 'w" where
  "OptInMutator_mutate_Split p w =
     (case TORCH_INTERNAL_ASSERT False ''Mutate not overriden for Split.'' of
        Inl e \<Rightarrow> Inl e | Inr u \<Rightarrow> Inl MissingReturn)"

definition OptInMutator_mutate_Merge :: "ptr \<Rightarrow> 'w \<Rightarrow> error + ptr \<times> 'w" where
  "OptInMutator_mutate_Merge p w =
     (case TORCH_INTERNAL_ASSERT False ''Mutate not overriden for Merge.'' of
        Inl e \<Rightarrow> Inl e | Inr u \<Rightarrow> Inl MissingReturn)"

definition OptInMutator_mutate_Reorder :: "ptr \<Rightarrow> 'w \<Rightarrow> error + ptr \<times> 'w" where
  "OptInMutator_mutate_Reorder p w =
     (case TORCH_INTERNAL_ASSERT False ''Mutate not overriden for Reorder.'' of
        Inl e \<Rightarrow> Inl e | Inr u \<Rightarrow> Inl MissingReturn)"

definition OptInMutator_mutate_UnaryOp :: "ptr \<Rightarrow> 'w \<Rightarrow> error + ptr \<times> 'w" where
  "OptInMutator_mutate_UnaryOp p w =
     (case TORCH_INTERNAL_ASSERT False ''Mutate not overriden for UnaryOp.'' of
        Inl e \<Rightarrow> Inl e | Inr u \<Rightarrow> Inl MissingReturn)"

definition OptInMutator_mutate_BinaryOp :: "ptr \<Rightarrow> 'w \<Rightarrow> error + ptr \<times> 'w" where
  "OptInMutator_mutate_BinaryOp p w =
     (case TORCH_INTERNAL_ASSERT False ''Mutate not overriden for BinaryOp.'' of
        Inl e \<Rightarrow> Inl e | Inr u \<Rightarrow> Inl MissingReturn)"

fun OptInMutator_mutate :: "kind \<Rightarrow> ptr \<Rightarrow> 'w \<Rightarrow> error + ptr \<times> 'w" where
  "OptInMutator_mutate IterDomain = OptInMutator_mutate_IterDomain"
| "OptInMutator_mutate TensorDomain = OptInMutator_mutate_TensorDomain"
| "OptInMutator_mutate TensorView = OptInMutator_mutate_TensorView"
| "OptInMutator_mutate Float = OptInMutator_mutate_Float"
| "OptInMutator_mutate Int_kind = OptInMutator_mutate_Int"
| "OptInMutator_mutate Split = OptInMutator_mutate_Split"
| "OptInMutator_mutate Merge = OptInMutator_mutate_Merge"
| "OptInMutator_mutate Reorder = OptInMutator_mutate_Reorder"
| "OptInMutator_mutate UnaryOp = OptInMutator_mutate_UnaryOp"
| "OptInMutator_mutate BinaryOp = OptInMutator_mutate_BinaryOp"

subsection \<open>The declared member functions of each struct\<close>

text \<open>
  The virtual member functions each struct declares, the destructor apart, in the order
  of the header (the constructors and assignment operators are all defaulted and are
  left out). A declaration is recorded with the name of the member function, the pointee
  type of its parameter, whether the pointee is \<^verbatim>\<open>const\<close>, its return type, and whether
  the header gives it a body.
\<close>

datatype strategy =
  OptOutDispatch | OptInConstDispatch | OptInDispatch | OptOutMutator | OptInMutator

datatype param = Fusion | Statement | Family family | Concrete kind

datatype ret = Void | Statement_ptr

record overload =
  member :: string
  parameter :: param
  const_pointee :: bool
  returns :: ret
  inline_body :: bool

definition decl :: "string \<Rightarrow> param \<Rightarrow> bool \<Rightarrow> ret \<Rightarrow> bool \<Rightarrow> overload" where
  "decl m p c r b =
     \<lparr>member = m, parameter = p, const_pointee = c, returns = r, inline_body = b\<rparr>"

text \<open>The order of the three hierarchical overloads is Statement, Expr, Val throughout.\<close>

definition hierarchal :: "param list" where
  "hierarchal = [Statement, Family Expr, Family Val]"

definition concrete_params :: "param list" where
  "concrete_params = map Concrete all_kinds"

fun surface :: "strategy \<Rightarrow> overload list" where
  "surface OptOutDispatch =
     map (\<lambda>p. decl ''handle'' p False Void False) hierarchal @
     map (\<lambda>p. decl ''handle'' p False Void True) concrete_params"
| "surface OptInConstDispatch =
     map (\<lambda>p. decl ''handle'' p True Void False) hierarchal @
     map (\<lambda>p. decl ''handle'' p True Void True) concrete_params"
| "surface OptInDispatch =
     map (\<lambda>p. decl ''handle'' p False Void False) hierarchal @
     map (\<lambda>p. decl ''handle'' p False Void True) concrete_params"
| "surface OptOutMutator =
     decl ''mutate'' Fusion False Void False #
     map (\<lambda>p. decl ''mutate'' p False Statement_ptr False) hierarchal @
     map (\<lambda>p. decl ''mutate'' p False Statement_ptr False) concrete_params"
| "surface OptInMutator =
     map (\<lambda>p. decl ''mutate'' p False Statement_ptr False) hierarchal @
     map (\<lambda>p. decl ''mutate'' p False Statement_ptr True) concrete_params"



section \<open>Routing\<close>

subsection \<open>Nodes and the program state\<close>

text \<open>
  Modelled from the spec: the header only forward-declares the node structs; their
  definitions are not among the sources. Section 3 of the specification gives every
  node a discriminant identifying its concrete kind, and section 4.5 speaks of a node's
  constituents. A discriminant is either one of the ten enumerated kinds or some other
  tag (scenario S6: ``a synthetic node whose discriminant is not enumerated'').
\<close>

datatype discriminant = Enumerated kind | Unenumerated nat

record node =
  discriminant :: discriminant
  constituents :: "ptr list"

text \<open>
  Modelled from the spec: the program state the handlers run in, which the header does
  not describe. It holds the nodes by address, the next unused address, and whatever
  else the program holds (for instance the fields of a subclass of a strategy).
\<close>

record 'u world =
  heap :: "nat \<Rightarrow> node option"
  next_free :: nat
  user :: 'u

fun deref :: "'u world \<Rightarrow> ptr \<Rightarrow> node option" where
  "deref w Null = None"
| "deref w (Addr a) = heap w a"

type_synonym ('u, 'r) handler = "ptr \<Rightarrow> 'u world \<Rightarrow> 'r"

subsection \<open>The two-hop router\<close>

text \<open>
  Modelled from the spec: the bodies of the \<^verbatim>\<open>Statement*\<close>, \<^verbatim>\<open>Expr*\<close> and \<^verbatim>\<open>Val*\<close>
  overloads are declared in the header and defined elsewhere. Section 4.1: the entry
  point consults the discriminant to decide whether the node is a Val or an Expr and
  forwards to the corresponding middle-level handler, which dispatches on the concrete
  kind; a discriminant that matches no known concrete kind is the failure
  \<open>UnknownNodeKind\<close>. The router is shared by all strategies: \<open>fail\<close> says how the
  strategy's result type carries a failure.
\<close>

definition dispatch_Statement ::
  "(error \<Rightarrow> 'r) \<Rightarrow> ('u, 'r) handler \<Rightarrow> ('u, 'r) handler \<Rightarrow> ('u, 'r) handler" where
  "dispatch_Statement fail on_Val on_Expr p w =
     (case deref w p of
        None \<Rightarrow> fail NullDereference
      | Some n \<Rightarrow>
          (case discriminant n of
             Enumerated K \<Rightarrow> (case family_of K of Val \<Rightarrow> on_Val p w | Expr \<Rightarrow> on_Expr p w)
           | Unenumerated t \<Rightarrow> fail UnknownNodeKind))"

definition dispatch_family ::
  "family \<Rightarrow> (error \<Rightarrow> 'r) \<Rightarrow> (kind \<Rightarrow> ('u, 'r) handler) \<Rightarrow> ('u, 'r) handler" where
  "dispatch_family F fail on_kind p w =
     (case deref w p of
        None \<Rightarrow> fail NullDereference
      | Some n \<Rightarrow>
          (case discriminant n of
             Enumerated K \<Rightarrow> (if family_of K = F then on_kind K p w else fail UnknownNodeKind)
           | Unenumerated t \<Rightarrow> fail UnknownNodeKind))"

definition dispatch_Val ::
  "(error \<Rightarrow> 'r) \<Rightarrow> (kind \<Rightarrow> ('u, 'r) handler) \<Rightarrow> ('u, 'r) handler" where
  "dispatch_Val = dispatch_family Val"

definition dispatch_Expr ::
  "(error \<Rightarrow> 'r) \<Rightarrow> (kind \<Rightarrow> ('u, 'r) handler) \<Rightarrow> ('u, 'r) handler" where
  "dispatch_Expr = dispatch_family Expr"

subsection \<open>Virtual member functions and overrides\<close>

text \<open>
  Modelled from the spec: subclasses of the strategies are written by the passes, outside
  the header. Every handler is declared \<^verbatim>\<open>virtual\<close>, so a subclass may replace any subset
  of them (sections 4.1 and 4.2). An override of an abstract-level handler takes full
  responsibility: it receives the implementation of the base struct, which it may call
  to forward (\<^verbatim>\<open>Base::handle(v)\<close>) or ignore. The implementation of the base struct for an
  abstract level is the router, calling the object's own (possibly overridden) handlers
  of the next level.
\<close>

record ('u, 'r) overrides =
  override_Statement :: "(('u, 'r) handler \<Rightarrow> ('u, 'r) handler) option"
  override_Expr :: "(('u, 'r) handler \<Rightarrow> ('u, 'r) handler) option"
  override_Val :: "(('u, 'r) handler \<Rightarrow> ('u, 'r) handler) option"
  override_concrete :: "kind \<Rightarrow> ('u, 'r) handler option"

definition no_overrides :: "('u, 'r) overrides" where
  "no_overrides =
     \<lparr>override_Statement = None, override_Expr = None, override_Val = None,
      override_concrete = (\<lambda>K. None)\<rparr>"

definition virtual_concrete ::
  "(kind \<Rightarrow> ('u, 'r) handler) \<Rightarrow> ('u, 'r) overrides \<Rightarrow> kind \<Rightarrow> ('u, 'r) handler" where
  "virtual_concrete base ov K = (case override_concrete ov K of None \<Rightarrow> base K | Some h \<Rightarrow> h)"

definition virtual_Val ::
  "(error \<Rightarrow> 'r) \<Rightarrow> (kind \<Rightarrow> ('u, 'r) handler) \<Rightarrow> ('u, 'r) overrides \<Rightarrow> ('u, 'r) handler" where
  "virtual_Val fail base ov =
     (case override_Val ov of
        None \<Rightarrow> dispatch_Val fail (virtual_concrete base ov)
      | Some h \<Rightarrow> h (dispatch_Val fail (virtual_concrete base ov)))"

definition virtual_Expr ::
  "(error \<Rightarrow> 'r) \<Rightarrow> (kind \<Rightarrow> ('u, 'r) handler) \<Rightarrow> ('u, 'r) overrides \<Rightarrow> ('u, 'r) handler" where
  "virtual_Expr fail base ov =
     (case override_Expr ov of
        None \<Rightarrow> dispatch_Expr fail (virtual_concrete base ov)
      | Some h \<Rightarrow> h (dispatch_Expr fail (virtual_concrete base ov)))"

definition virtual_Statement ::
  "(error \<Rightarrow> 'r) \<Rightarrow> (kind \<Rightarrow> ('u, 'r) handler) \<Rightarrow> ('u, 'r) overrides \<Rightarrow> ('u, 'r) handler" where
  "virtual_Statement fail base ov =
     (case override_Statement ov of
        None \<Rightarrow> dispatch_Statement fail (virtual_Val fail base ov) (virtual_Expr fail base ov)
      | Some h \<Rightarrow>
          h (dispatch_Statement fail (virtual_Val fail base ov) (virtual_Expr fail base ov)))"

subsection \<open>The Statement-level entry point of each strategy\<close>

text \<open>
  Modelled from the spec: the body of each strategy's \<^verbatim>\<open>Statement*\<close> overload is not in
  the header. It is the router above, over the concrete handlers the header defines for
  the strategy.
\<close>

definition OptOutDispatch_handle_Statement ::
  "('u, error + 'u world) overrides \<Rightarrow> ('u, error + 'u world) handler" where
  "OptOutDispatch_handle_Statement = virtual_Statement Inl OptOutDispatch_handle"

definition OptInConstDispatch_handle_Statement ::
  "('u, error + 'u world) overrides \<Rightarrow> ('u, error + 'u world) handler" where
  "OptInConstDispatch_handle_Statement = virtual_Statement Inl OptInConstDispatch_handle"

definition OptInDispatch_handle_Statement ::
  "('u, error + 'u world) overrides \<Rightarrow> ('u, error + 'u world) handler" where
  "OptInDispatch_handle_Statement = virtual_Statement Inl OptInDispatch_handle"

definition OptInMutator_mutate_Statement ::
  "('u, error + ptr \<times> 'u world) overrides \<Rightarrow> ('u, error + ptr \<times> 'u world) handler" where
  "OptInMutator_mutate_Statement = virtual_Statement Inl OptInMutator_mutate"

section \<open>The identity rewrite of OptOutMutator\<close>

text \<open>
  Modelled from the spec: the concrete handlers of \<^verbatim>\<open>OptOutMutator\<close> and its
  \<^verbatim>\<open>mutate(Fusion*)\<close> are declared in the header and ``defined in mutator.cpp'', which is
  not among the sources. Section 4.5: each concrete-kind handler recursively mutates the
  node's constituents; if none change it returns the original node, otherwise it
  constructs and returns a new node of the same kind composed from the rewritten pieces.
  The recursion goes through the object's own Statement-level \<^verbatim>\<open>mutate\<close>, so the result is
  an option: \<open>None\<close> when the given depth of nested calls does not suffice.
\<close>

type_synonym 'u mutation = "(error + ptr \<times> 'u world) option"

fun mutate_constituents ::
  "('u, 'u mutation) handler \<Rightarrow> ptr list \<Rightarrow> 'u world \<Rightarrow> (error + ptr list \<times> 'u world) option" where
  "mutate_constituents m [] w = Some (Inr ([], w))"
| "mutate_constituents m (c # cs) w =
     (case m c w of
        None \<Rightarrow> None
      | Some (Inl e) \<Rightarrow> Some (Inl e)
      | Some (Inr (c', w')) \<Rightarrow>
          (case mutate_constituents m cs w' of
             None \<Rightarrow> None
           | Some (Inl e) \<Rightarrow> Some (Inl e)
           | Some (Inr (cs', w'')) \<Rightarrow> Some (Inr (c' # cs', w''))))"

definition allocate :: "node \<Rightarrow> 'u world \<Rightarrow> ptr \<times> 'u world" where
  "allocate n w =
     (Addr (next_free w),
      w\<lparr>heap := (heap w)(next_free w \<mapsto> n), next_free := Suc (next_free w)\<rparr>)"

definition identity_rewrite :: "('u, 'u mutation) handler \<Rightarrow> ('u, 'u mutation) handler" where
  "identity_rewrite m p w =
     (case deref w p of
        None \<Rightarrow> Some (Inl NullDereference)
      | Some n \<Rightarrow>
          (case mutate_constituents m (constituents n) w of
             None \<Rightarrow> None
           | Some (Inl e) \<Rightarrow> Some (Inl e)
           | Some (Inr (cs', w')) \<Rightarrow>
               if cs' = constituents n then Some (Inr (p, w'))
               else Some (Inr (allocate (n\<lparr>constituents := cs'\<rparr>) w'))))"

text \<open>
  Modelled from the spec: the concrete handlers of \<^verbatim>\<open>OptOutMutator\<close> are declared in the
  header without a body. Section 4.5: the default handler of every concrete kind is the
  identity rewrite; the Statement-level entry point is the router over these handlers.
\<close>

definition OptOutMutator_mutate ::
  "('u, 'u mutation) handler \<Rightarrow> kind \<Rightarrow> ('u, 'u mutation) handler" where
  "OptOutMutator_mutate m K = identity_rewrite m"

primrec OptOutMutator_mutate_Statement ::
  "nat \<Rightarrow> ('u, 'u mutation) overrides \<Rightarrow> ('u, 'u mutation) handler" where
  "OptOutMutator_mutate_Statement 0 ov = (\<lambda>p w. None)"
| "OptOutMutator_mutate_Statement (Suc fuel) ov =
     virtual_Statement (\<lambda>e. Some (Inl e))
       (OptOutMutator_mutate (OptOutMutator_mutate_Statement fuel ov)) ov"

text \<open>
  Modelled from the spec: \<^verbatim>\<open>Fusion\<close> is declared only. Sections 4.5 and 6: the
  whole-fusion rewrite iterates the fusion's statements in the fusion's declared order
  and replaces each with the result of mutating it; the replacement itself is the
  fusion's operation, here the parameter \<open>replace\<close>.
\<close>

record fusion =
  statements :: "ptr list"

fun mutate_each ::
  "(ptr \<Rightarrow> ptr \<Rightarrow> fusion \<Rightarrow> fusion) \<Rightarrow> ('u, 'u mutation) handler \<Rightarrow> ptr list \<Rightarrow>
   fusion \<Rightarrow> 'u world \<Rightarrow> (error + fusion \<times> 'u world) option" where
  "mutate_each replace m [] f w = Some (Inr (f, w))"
| "mutate_each replace m (s # ss) f w =
     (case m s w of
        None \<Rightarrow> None
      | Some (Inl e) \<Rightarrow> Some (Inl e)
      | Some (Inr (s', w')) \<Rightarrow> mutate_each replace m ss (replace s s' f) w')"

definition OptOutMutator_mutate_Fusion ::
  "nat \<Rightarrow> ('u, 'u mutation) overrides \<Rightarrow> (ptr \<Rightarrow> ptr \<Rightarrow> fusion \<Rightarrow> fusion) \<Rightarrow>
   fusion \<Rightarrow> 'u world \<Rightarrow> (error + fusion \<times> 'u world) option" where
  "OptOutMutator_mutate_Fusion fuel ov replace f w =
     mutate_each replace (OptOutMutator_mutate_Statement fuel ov) (statements f) f w"

text \<open>
  Modelled from the spec: one possible replacement operation of a fusion, which puts the
  new statement wherever the list holds the old one.
\<close>

definition replace_statement :: "ptr \<Rightarrow> ptr \<Rightarrow> fusion \<Rightarrow> fusion" where
  "replace_statement old new f =
     f\<lparr>statements := map (\<lambda>q. if q = old then new else q) (statements f)\<rparr>"

text \<open>
  Modelled from the spec: the nodes a fusion owns (section 3). A node is well formed to
  depth \<open>d\<close> when the pointer refers to a node, the node's kind is enumerated and its
  constituents are well formed to depth \<open>d - 1\<close>; so the constituents below it form
  no cycle and are at most \<open>d\<close> levels deep.
\<close>

primrec well_formed :: "nat \<Rightarrow> 'u world \<Rightarrow> ptr \<Rightarrow> bool" where
  "well_formed 0 w p = False"
| "well_formed (Suc d) w p =
     (case deref w p of
        None \<Rightarrow> False
      | Some n \<Rightarrow>
          (case discriminant n of
             Enumerated K \<Rightarrow> list_all (well_formed d w) (constituents n)
           | Unenumerated t \<Rightarrow> False))"

text \<open>
  Modelled from the spec: structural equality (section 8, property 7). Two nodes are
  structurally equal to depth \<open>d\<close> when they have the same discriminant and pairwise
  structurally equal constituents; two fusions, when their statements are pairwise
  structurally equal.
\<close>

primrec same_structure :: "nat \<Rightarrow> 'u world \<Rightarrow> 'u world \<Rightarrow> ptr \<Rightarrow> ptr \<Rightarrow> bool" where
  "same_structure 0 w w' p p' = False"
| "same_structure (Suc d) w w' p p' =
     (case deref w p of
        None \<Rightarrow> False
      | Some n \<Rightarrow>
          (case deref w' p' of
             None \<Rightarrow> False
           | Some n' \<Rightarrow>
               discriminant n = discriminant n' \<and>
               list_all2 (same_structure d w w') (constituents n) (constituents n')))"

definition fusion_same_structure ::
  "nat \<Rightarrow> fusion \<times> 'u world \<Rightarrow> fusion \<times> 'u world \<Rightarrow> bool" where
  "fusion_same_structure d a b =
     list_all2 (same_structure d (snd a) (snd b)) (statements (fst a)) (statements (fst b))"

subsection \<open>A small fusion\<close>

text \<open>
  Modelled from the spec: the nodes of scenario S3, a \<^verbatim>\<open>UnaryOp\<close> (at address 3) whose
  output and operand are two \<^verbatim>\<open>Float\<close>s (at 2 and 1), and the node of scenario S6, whose
  discriminant is not enumerated (at 4).
\<close>

definition float_node :: node where
  "float_node = \<lparr>discriminant = Enumerated Float, constituents = []\<rparr>"

definition unary_node :: node where
  "unary_node = \<lparr>discriminant = Enumerated UnaryOp, constituents = [Addr 2, Addr 1]\<rparr>"

definition synthetic_node :: node where
  "synthetic_node = \<lparr>discriminant = Unenumerated 99, constituents = []\<rparr>"

definition example_world :: "unit world" where
  "example_world =
     \<lparr>heap = (\<lambda>a. if a = 1 \<or> a = 2 then Some float_node
                  else if a = 3 then Some unary_node
                  else if a = 4 then Some synthetic_node
                  else None),
      next_free = 5, user = ()\<rparr>"

definition example_fusion :: fusion where
  "example_fusion = \<lparr>statements = [Addr 1, Addr 2, Addr 3]\<rparr>"

text \<open>
  Modelled from the spec: a subclass that overrides the Val-level handler to do nothing
  and not forward (section 8, property 5).
\<close>

definition swallow_Val :: "(unit, error + unit world) overrides" where
  "swallow_Val = no_overrides\<lparr>override_Val := Some (\<lambda>routing p w. Inr w)\<rparr>"

text \<open>
  Modelled from the spec: a subclass of \<^verbatim>\<open>OptOutMutator\<close> that overrides the \<^verbatim>\<open>Float\<close>
  handler to return a freshly constructed \<^verbatim>\<open>Float\<close> (scenario S3).
\<close>

definition fresh_Float :: "(unit, unit mutation) overrides" where
  "fresh_Float = no_overrides\<lparr>override_concrete :=
      (\<lambda>K. if K = Float then Some (\<lambda>p w. Some (Inr (allocate float_node w))) else None)\<rparr>"




section \<open>Properties of the concrete handlers\<close>

lemma TORCH_INTERNAL_ASSERT_False:
  "TORCH_INTERNAL_ASSERT False msg = Inl (InternalAssert msg)"
  by (simp add: TORCH_INTERNAL_ASSERT_def)

lemma kind_name_inj: "kind_name K = kind_name K' \<Longrightarrow> K = K'"
  by (cases K; cases K'; simp)

lemma HandlerNotOverridden_inj: "(HandlerNotOverridden K = HandlerNotOverridden K') = (K = K')"
  by (auto simp: HandlerNotOverridden_def dest: kind_name_inj)

lemma MutatorNotOverridden_inj: "(MutatorNotOverridden K = MutatorNotOverridden K') = (K = K')"
  by (auto simp: MutatorNotOverridden_def dest: kind_name_inj)

lemmas OptOutDispatch_handle_defs =
  OptOutDispatch_handle_IterDomain_def OptOutDispatch_handle_TensorDomain_def
  OptOutDispatch_handle_TensorView_def OptOutDispatch_handle_Float_def
  OptOutDispatch_handle_Int_def OptOutDispatch_handle_Split_def
  OptOutDispatch_handle_Merge_def OptOutDispatch_handle_Reorder_def
  OptOutDispatch_handle_UnaryOp_def OptOutDispatch_handle_BinaryOp_def

lemmas OptInConstDispatch_handle_defs =
  OptInConstDispatch_handle_IterDomain_def OptInConstDispatch_handle_TensorDomain_def
  OptInConstDispatch_handle_TensorView_def OptInConstDispatch_handle_Float_def
  OptInConstDispatch_handle_Int_def OptInConstDispatch_handle_Split_def
  OptInConstDispatch_handle_Merge_def OptInConstDispatch_handle_Reorder_def
  OptInConstDispatch_handle_UnaryOp_def OptInConstDispatch_handle_BinaryOp_def

lemmas OptInDispatch_handle_defs =
  OptInDispatch_handle_IterDomain_def OptInDispatch_handle_TensorDomain_def
  OptInDispatch_handle_TensorView_def OptInDispatch_handle_Float_def
  OptInDispatch_handle_Int_def OptInDispatch_handle_Split_def
  OptInDispatch_handle_Merge_def OptInDispatch_handle_Reorder_def
  OptInDispatch_handle_UnaryOp_def OptInDispatch_handle_BinaryOp_def

lemmas OptInMutator_mutate_defs =
  OptInMutator_mutate_IterDomain_def OptInMutator_mutate_TensorDomain_def
  OptInMutator_mutate_TensorView_def OptInMutator_mutate_Float_def
  OptInMutator_mutate_Int_def OptInMutator_mutate_Split_def
  OptInMutator_mutate_Merge_def OptInMutator_mutate_Reorder_def
  OptInMutator_mutate_UnaryOp_def OptInMutator_mutate_BinaryOp_def

lemma OptOutDispatch_handle_noop: "OptOutDispatch_handle K p w = Inr w"
  by (cases K) (simp_all add: OptOutDispatch_handle_defs)

lemma OptInDispatch_handle_fails: "OptInDispatch_handle K p w = Inl (HandlerNotOverridden K)"
  by (cases K)
     (simp_all add: OptInDispatch_handle_defs TORCH_INTERNAL_ASSERT_False HandlerNotOverridden_def)

lemma OptInConstDispatch_handle_fails:
  "OptInConstDispatch_handle K p w = Inl (HandlerNotOverridden K)"
  by (cases K)
     (simp_all add: OptInConstDispatch_handle_defs TORCH_INTERNAL_ASSERT_False
        HandlerNotOverridden_def)

lemma OptInMutator_mutate_fails: "OptInMutator_mutate K p w = Inl (MutatorNotOverridden K)"
  by (cases K)
     (simp_all add: OptInMutator_mutate_defs TORCH_INTERNAL_ASSERT_False MutatorNotOverridden_def)

lemma surface_lengths:
  "length (surface OptOutDispatch) = 13" "length (surface OptInConstDispatch) = 13"
  "length (surface OptInDispatch) = 13" "length (surface OptOutMutator) = 14"
  "length (surface OptInMutator) = 13"
  by (simp_all add: hierarchal_def concrete_params_def all_kinds_def)


lemma parameters_OptOutMutator:
  "map parameter (surface OptOutMutator) = Fusion # hierarchal @ concrete_params"
  by (simp add: decl_def comp_def)



section \<open>Properties of the router\<close>

lemma dispatch_Statement_known:
  "deref w p = Some n \<Longrightarrow> discriminant n = Enumerated K \<Longrightarrow>
   dispatch_Statement fail on_Val on_Expr p w =
     (case family_of K of Val \<Rightarrow> on_Val p w | Expr \<Rightarrow> on_Expr p w)"
  by (simp add: dispatch_Statement_def)

lemma dispatch_family_known:
  "deref w p = Some n \<Longrightarrow> discriminant n = Enumerated K \<Longrightarrow> family_of K = F \<Longrightarrow>
   dispatch_family F fail on_kind p w = on_kind K p w"
  by (simp add: dispatch_family_def)

lemma dispatch_Statement_unknown:
  "deref w p = Some n \<Longrightarrow> discriminant n = Unenumerated t \<Longrightarrow>
   dispatch_Statement fail on_Val on_Expr p w = fail UnknownNodeKind"
  by (simp add: dispatch_Statement_def)

lemma dispatch_family_unknown:
  "deref w p = Some n \<Longrightarrow> discriminant n = Unenumerated t \<Longrightarrow>
   dispatch_family F fail on_kind p w = fail UnknownNodeKind"
  by (simp add: dispatch_family_def)

text \<open>The routing levels read the discriminant through the pointer; a null pointer fails.\<close>

lemma dispatch_Statement_Null:
  "dispatch_Statement fail on_Val on_Expr Null w = fail NullDereference"
  by (simp add: dispatch_Statement_def)

lemma dispatch_family_Null: "dispatch_family F fail on_kind Null w = fail NullDereference"
  by (simp add: dispatch_family_def)

lemmas virtual_defs =
  virtual_Statement_def virtual_Val_def virtual_Expr_def dispatch_Val_def dispatch_Expr_def

lemma virtual_Statement_default:
  assumes "deref w p = Some n" "discriminant n = Enumerated K"
    and "override_Statement ov = None" "override_Val ov = None" "override_Expr ov = None"
  shows "virtual_Statement fail base ov p w = virtual_concrete base ov K p w"
  using assms
  by (cases "family_of K")
     (simp_all add: virtual_defs dispatch_Statement_known dispatch_family_known)

lemma virtual_Statement_no_overrides:
  assumes "deref w p = Some n" "discriminant n = Enumerated K"
  shows "virtual_Statement fail base no_overrides p w = base K p w"
  using virtual_Statement_default [OF assms, of no_overrides fail base]
  by (simp add: no_overrides_def virtual_concrete_def)

text \<open>
  Through the Statement-level entry point, a strategy without overrides reaches the
  handler of the node's kind: the results of the concrete handlers carry over.
\<close>

lemma OptOutDispatch_entry_no_effect:
  "deref w p = Some n \<Longrightarrow> discriminant n = Enumerated K \<Longrightarrow>
   OptOutDispatch_handle_Statement no_overrides p w = Inr w"
  by (simp add: OptOutDispatch_handle_Statement_def virtual_Statement_no_overrides
        OptOutDispatch_handle_noop)

lemma OptInDispatch_entry_fails:
  "deref w p = Some n \<Longrightarrow> discriminant n = Enumerated K \<Longrightarrow>
   OptInDispatch_handle_Statement no_overrides p w = Inl (HandlerNotOverridden K)"
  by (simp add: OptInDispatch_handle_Statement_def virtual_Statement_no_overrides
        OptInDispatch_handle_fails)

lemma OptInConstDispatch_entry_fails:
  "deref w p = Some n \<Longrightarrow> discriminant n = Enumerated K \<Longrightarrow>
   OptInConstDispatch_handle_Statement no_overrides p w = Inl (HandlerNotOverridden K)"
  by (simp add: OptInConstDispatch_handle_Statement_def virtual_Statement_no_overrides
        OptInConstDispatch_handle_fails)

lemma OptInMutator_entry_fails:
  "deref w p = Some n \<Longrightarrow> discriminant n = Enumerated K \<Longrightarrow>
   OptInMutator_mutate_Statement no_overrides p w = Inl (MutatorNotOverridden K)"
  by (simp add: OptInMutator_mutate_Statement_def virtual_Statement_no_overrides
        OptInMutator_mutate_fails)

lemma OptInConstDispatch_entry_same:
  "OptInConstDispatch_handle_Statement ov = OptInDispatch_handle_Statement ov"
proof -
  have "(OptInConstDispatch_handle :: kind \<Rightarrow> ('a, error + 'a world) handler)
      = OptInDispatch_handle"
    by (intro ext) (simp add: OptInDispatch_handle_fails OptInConstDispatch_handle_fails)
  then show ?thesis
    by (simp add: OptInConstDispatch_handle_Statement_def OptInDispatch_handle_Statement_def)
qed

section \<open>Properties of the identity rewrite\<close>

lemma mutate_constituents_unchanged:
  "(\<And>c. c \<in> set cs \<Longrightarrow> m c w = Some (Inr (c, w))) \<Longrightarrow>
   mutate_constituents m cs w = Some (Inr (cs, w))"
  by (induction cs) simp_all

lemma identity_rewrite_unchanged:
  assumes "deref w p = Some n"
    and "\<And>c. c \<in> set (constituents n) \<Longrightarrow> m c w = Some (Inr (c, w))"
  shows "identity_rewrite m p w = Some (Inr (p, w))"
  using assms by (simp add: identity_rewrite_def mutate_constituents_unchanged)

lemma mutate_Statement_identity:
  "well_formed d w p \<Longrightarrow> d \<le> fuel \<Longrightarrow>
   OptOutMutator_mutate_Statement fuel no_overrides p w = Some (Inr (p, w))"
proof (induction d arbitrary: p fuel)
  case 0
  then show ?case by simp
next
  case (Suc d)
  from Suc.prems(2) obtain g where fuel: "fuel = Suc g" and dg: "d \<le> g"
    by (cases fuel) auto
  from Suc.prems(1) obtain n K where n: "deref w p = Some n"
    and K: "discriminant n = Enumerated K"
    and cs: "list_all (well_formed d w) (constituents n)"
    by (auto split: option.splits discriminant.splits)
  have kids: "\<And>c. c \<in> set (constituents n) \<Longrightarrow>
      OptOutMutator_mutate_Statement g no_overrides c w = Some (Inr (c, w))"
    using cs dg Suc.IH by (auto simp: list_all_iff)
  have "OptOutMutator_mutate_Statement fuel no_overrides p w =
      OptOutMutator_mutate (OptOutMutator_mutate_Statement g no_overrides) K p w"
    unfolding fuel OptOutMutator_mutate_Statement.simps
    by (rule virtual_Statement_no_overrides [OF n K])
  also have "\<dots> = identity_rewrite (OptOutMutator_mutate_Statement g no_overrides) p w"
    by (simp add: OptOutMutator_mutate_def)
  also have "\<dots> = Some (Inr (p, w))"
    using n kids by (simp add: identity_rewrite_unchanged)
  finally show ?case .
qed

lemma well_formed_constituents:
  "well_formed d w p \<Longrightarrow> deref w p = Some n \<Longrightarrow> c \<in> set (constituents n) \<Longrightarrow>
   well_formed (d - 1) w c"
  by (cases d) (auto split: discriminant.splits simp: list_all_iff)

lemma same_structure_refl: "well_formed d w p \<Longrightarrow> same_structure d w w p p"
proof (induction d arbitrary: p)
  case 0
  then show ?case by simp
next
  case (Suc d)
  then show ?case
    by (auto split: option.splits discriminant.splits simp: list_all_iff list_all2_same)
qed

lemma mutate_each_identity:
  assumes "\<And>s. s \<in> set ss \<Longrightarrow> m s w = Some (Inr (s, w))"
    and "\<And>s g. replace s s g = g"
  shows "mutate_each replace m ss f w = Some (Inr (f, w))"
  using assms by (induction ss) simp_all

lemma replace_statement_same: "replace_statement s s f = f"
  by (simp add: replace_statement_def)

text \<open>
  The whole-fusion rewrite visits the statements in the order of the list: a rewrite
  that appends each statement it is given to a log leaves the log extended by the list.
\<close>

lemma mutate_each_visits_in_order:
  assumes "\<And>s g. replace s s g = g"
  shows "mutate_each replace (\<lambda>s w. Some (Inr (s, w\<lparr>user := user w @ [s]\<rparr>))) ss f w
         = Some (Inr (f, w\<lparr>user := user w @ ss\<rparr>))"
  using assms by (induction ss arbitrary: w) simp_all



lemma example_well_formed:
  "well_formed (Suc (Suc 0)) example_world (Addr 1)"
  "well_formed (Suc (Suc 0)) example_world (Addr 2)"
  "well_formed (Suc (Suc 0)) example_world (Addr 3)"
  by (simp_all add: example_world_def float_node_def unary_node_def)

text \<open>
  Scenario S3: the rewrite of the \<^verbatim>\<open>UnaryOp\<close> returns a new node (at address 7) over the
  two new \<^verbatim>\<open>Float\<close>s; the nodes that were there are unchanged.
\<close>

lemma rewrite_with_fresh_Float:
  "OptOutMutator_mutate_Statement (Suc (Suc 0)) fresh_Float (Addr 3) example_world =
     Some (Inr (Addr 7,
       example_world\<lparr>heap := (heap example_world)
           (5 \<mapsto> float_node, 6 \<mapsto> float_node,
            7 \<mapsto> unary_node\<lparr>constituents := [Addr 5, Addr 6]\<rparr>),
         next_free := 8\<rparr>))"
  by (simp add: virtual_defs virtual_concrete_def dispatch_Statement_def dispatch_family_def
      fresh_Float_def no_overrides_def example_world_def unary_node_def float_node_def
      OptOutMutator_mutate_def identity_rewrite_def allocate_def numeral_eq_Suc)

section \<open>The claims settled on the header\<close>

text \<open>
  C2. For every concrete kind \<open>K\<close>, the handler that \<^verbatim>\<open>OptInDispatch\<close> and
  \<^verbatim>\<open>OptInConstDispatch\<close> themselves define for \<open>K\<close> (the one that runs when no subclass
  overrides it) fails on every node pointer and in every state with
  \<open>HandlerNotOverridden K\<close>: the failed internal assertion whose message is
  ``Handle not overriden for \<open>K\<close>.''. The message determines \<open>K\<close>, so the failure carries
  the offending kind.
\<close>

theorem C2_opt_in_handlers_fail:
  "OptInDispatch_handle K p w = Inl (HandlerNotOverridden K) \<and>
   OptInConstDispatch_handle K p w = Inl (HandlerNotOverridden K) \<and>
   HandlerNotOverridden K =
     InternalAssert (''Handle not overriden for '' @ kind_name K @ ''.'') \<and>
   (HandlerNotOverridden K = HandlerNotOverridden K') = (K = K')"
  by (simp add: OptInDispatch_handle_fails OptInConstDispatch_handle_fails
        HandlerNotOverridden_inj)
     (simp add: HandlerNotOverridden_def)

text \<open>
  C4. For every concrete kind \<open>K\<close>, the handler \<^verbatim>\<open>OptInMutator\<close> itself defines for \<open>K\<close>
  fails on every node pointer and in every state with \<open>MutatorNotOverridden K\<close>, the
  failed internal assertion whose message is ``Mutate not overriden for \<open>K\<close>.''; it
  returns no value, and the message determines \<open>K\<close>.
\<close>

theorem C4_opt_in_mutator_fails:
  "OptInMutator_mutate K p w = Inl (MutatorNotOverridden K) \<and>
   (\<forall>r. OptInMutator_mutate K p w \<noteq> Inr r) \<and>
   MutatorNotOverridden K =
     InternalAssert (''Mutate not overriden for '' @ kind_name K @ ''.'') \<and>
   (MutatorNotOverridden K = MutatorNotOverridden K') = (K = K')"
  by (simp add: OptInMutator_mutate_fails MutatorNotOverridden_inj)
     (simp add: MutatorNotOverridden_def)

text \<open>
  C5. For every concrete kind \<open>K\<close>, the handler \<^verbatim>\<open>OptOutDispatch\<close> itself defines for \<open>K\<close>
  returns normally on every node pointer and leaves the state exactly as it found it;
  it raises no failure.
\<close>

theorem C5_opt_out_handlers_no_effect:
  "OptOutDispatch_handle K p w = Inr w \<and> (\<forall>e. OptOutDispatch_handle K p w \<noteq> Inl e)"
  by (simp add: OptOutDispatch_handle_noop)

text \<open>
  C8. \<^verbatim>\<open>OptInConstDispatch\<close> declares the overloads of \<^verbatim>\<open>OptInDispatch\<close>, in the same
  order, with the same names, return types and bodies given in the header; the only
  difference is that every pointee is \<^verbatim>\<open>const\<close> in the former and none is in the latter.
  For every concrete kind \<open>K\<close> the two default handlers give the same result, the failure
  \<open>HandlerNotOverridden K\<close>.
\<close>

theorem C8_const_dispatch_same_as_opt_in:
  "surface OptInConstDispatch =
     map (\<lambda>d. d\<lparr>const_pointee := True\<rparr>) (surface OptInDispatch) \<and>
   map const_pointee (surface OptInConstDispatch) = replicate 13 True \<and>
   map const_pointee (surface OptInDispatch) = replicate 13 False \<and>
   map parameter (surface OptInDispatch) = hierarchal @ concrete_params \<and>
   OptInConstDispatch_handle K p w = OptInDispatch_handle K p w \<and>
   OptInConstDispatch_handle K p w = Inl (HandlerNotOverridden K)"
  by (simp add: OptInDispatch_handle_fails OptInConstDispatch_handle_fails)
     (simp add: decl_def comp_def hierarchal_def concrete_params_def all_kinds_def
        numeral_eq_Suc)




text \<open>
  C10. The handler \<^verbatim>\<open>OptOutDispatch\<close> defines for a concrete kind never looks at its
  argument: called with the null pointer it returns normally with the state unchanged,
  and its result is the same for every pointer, whatever the state holds at that
  address (the state is arbitrary here, so also one in which the pointer refers to no
  node).
\<close>

theorem C10_opt_out_handlers_ignore_argument:
  "OptOutDispatch_handle K Null w = Inr w \<and>
   OptOutDispatch_handle K p w = OptOutDispatch_handle K Null w \<and>
   OptOutDispatch_handle K p w = OptOutDispatch_handle K q w"
  by (simp add: OptOutDispatch_handle_noop)

section \<open>The claims settled on the router and the identity rewrite\<close>

text \<open>
  C1. In every strategy (any way \<open>fail\<close> of carrying a failure and any concrete
  handlers \<open>base\<close>), for a node of an enumerated kind \<open>K\<close> and a subclass that leaves the
  Statement-level handler alone: the Statement level hands the node to the handler of
  its family (Val or Expr); that handler, when not overridden, hands it to the handler
  of kind \<open>K\<close>. When the family-level handler is overridden by \<open>h\<close>, the result is that
  of \<open>h\<close>, which reaches the concrete handlers only through the base implementation it
  is given: an override that does not forward gives its own result whatever the
  concrete handlers are, and one that just forwards gives the result of the handler of
  kind \<open>K\<close>.
\<close>

theorem C1_abstract_level_handlers:
  assumes "deref w p = Some n" and "discriminant n = Enumerated K"
    and "override_Statement ov = None"
  shows
    "(family_of K = Val \<longrightarrow>
        virtual_Statement fail base ov p w = virtual_Val fail base ov p w \<and>
        (override_Val ov = None \<longrightarrow>
           virtual_Val fail base ov p w = virtual_concrete base ov K p w) \<and>
        (override_Val ov = Some h \<longrightarrow>
           virtual_Statement fail base ov p w
             = h (dispatch_Val fail (virtual_concrete base ov)) p w) \<and>
        (override_Val ov = Some (\<lambda>routing. g) \<longrightarrow>
           (\<forall>base' c. virtual_Statement fail base' (ov\<lparr>override_concrete := c\<rparr>) p w = g p w)) \<and>
        (override_Val ov = Some (\<lambda>routing. routing) \<longrightarrow>
           virtual_Statement fail base ov p w = virtual_concrete base ov K p w)) \<and>
     (family_of K = Expr \<longrightarrow>
        virtual_Statement fail base ov p w = virtual_Expr fail base ov p w \<and>
        (override_Expr ov = None \<longrightarrow>
           virtual_Expr fail base ov p w = virtual_concrete base ov K p w) \<and>
        (override_Expr ov = Some h \<longrightarrow>
           virtual_Statement fail base ov p w
             = h (dispatch_Expr fail (virtual_concrete base ov)) p w) \<and>
        (override_Expr ov = Some (\<lambda>routing. g) \<longrightarrow>
           (\<forall>base' c. virtual_Statement fail base' (ov\<lparr>override_concrete := c\<rparr>) p w = g p w)) \<and>
        (override_Expr ov = Some (\<lambda>routing. routing) \<longrightarrow>
           virtual_Statement fail base ov p w = virtual_concrete base ov K p w))"
  using assms
  by (simp add: virtual_defs dispatch_Statement_known dispatch_family_known)

theorem C1_witness:
  "deref example_world (Addr 1) = Some float_node \<and>
   discriminant float_node = Enumerated Float \<and>
   override_Statement swallow_Val = None \<and>
   family_of Float = Val \<and>
   override_Val swallow_Val = Some (\<lambda>routing p w. Inr w) \<and>
   OptInDispatch_handle_Statement swallow_Val (Addr 1) example_world = Inr example_world \<and>
   OptInDispatch_handle_Statement no_overrides (Addr 1) example_world
     = Inl (HandlerNotOverridden Float)"
proof -
  have n: "deref example_world (Addr 1) = Some float_node"
    by (simp add: example_world_def)
  have K: "discriminant float_node = Enumerated Float"
    by (simp add: float_node_def)
  have s: "override_Statement swallow_Val = None"
    by (simp add: swallow_Val_def no_overrides_def)
  have v: "override_Val swallow_Val = Some (\<lambda>routing p w. Inr w)"
    by (simp add: swallow_Val_def)
  have f: "family_of Float = Val"
    by simp
  from C1_abstract_level_handlers [OF n K s, of Inl OptInDispatch_handle _ "\<lambda>p w. Inr w"] f v
  have "\<forall>base' c. virtual_Statement Inl base' (swallow_Val\<lparr>override_concrete := c\<rparr>)
          (Addr 1) example_world = Inr example_world"
    by blast
  from this [rule_format, of OptInDispatch_handle "override_concrete swallow_Val"]
  have "OptInDispatch_handle_Statement swallow_Val (Addr 1) example_world = Inr example_world"
    by (simp add: OptInDispatch_handle_Statement_def)
  with n K s v show ?thesis
    by (simp add: OptInDispatch_entry_fails)
qed

text \<open>
  C7. For a node whose discriminant is not one of the enumerated kinds, the router
  fails with \<open>UnknownNodeKind\<close> at every level and for every strategy, whatever the
  concrete handlers and their overrides are; so do the Statement-level entry points of
  the five strategies.
\<close>

theorem C7_unknown_kind_fails:
  assumes "deref w p = Some n" and "discriminant n = Unenumerated t"
  shows
    "dispatch_Statement fail on_Val on_Expr p w = fail UnknownNodeKind \<and>
     dispatch_Val fail on_kind p w = fail UnknownNodeKind \<and>
     dispatch_Expr fail on_kind p w = fail UnknownNodeKind \<and>
     (override_Statement ov = None \<longrightarrow>
        virtual_Statement fail base ov p w = fail UnknownNodeKind) \<and>
     OptOutDispatch_handle_Statement no_overrides p w = Inl UnknownNodeKind \<and>
     OptInConstDispatch_handle_Statement no_overrides p w = Inl UnknownNodeKind \<and>
     OptInDispatch_handle_Statement no_overrides p w = Inl UnknownNodeKind \<and>
     OptInMutator_mutate_Statement no_overrides p w = Inl UnknownNodeKind \<and>
     OptOutMutator_mutate_Statement (Suc fuel) no_overrides p w = Some (Inl UnknownNodeKind)"
  using assms
  by (simp add: virtual_defs dispatch_Statement_unknown dispatch_family_unknown
        OptOutDispatch_handle_Statement_def OptInConstDispatch_handle_Statement_def
        OptInDispatch_handle_Statement_def OptInMutator_mutate_Statement_def no_overrides_def)

theorem C7_witness:
  "deref example_world (Addr 4) = Some synthetic_node \<and>
   discriminant synthetic_node = Unenumerated 99 \<and>
   OptOutDispatch_handle_Statement no_overrides (Addr 4) example_world = Inl UnknownNodeKind"
proof -
  have n: "deref example_world (Addr 4) = Some synthetic_node"
    by (simp add: example_world_def)
  have t: "discriminant synthetic_node = Unenumerated 99"
    by (simp add: synthetic_node_def)
  from C7_unknown_kind_fails [OF n t]
  have "OptOutDispatch_handle_Statement no_overrides (Addr 4) example_world
      = Inl UnknownNodeKind"
    by blast
  with n t show ?thesis by simp
qed

text \<open>
  C3. For every concrete kind \<open>K\<close> and every node of kind \<open>K\<close> that is well formed to
  some depth \<open>d\<close>, \<^verbatim>\<open>OptOutMutator\<close> without overrides, allowed at least \<open>d\<close> nested calls,
  returns the very pointer it was given and leaves the state unchanged (no copy is
  made), both from the Statement-level entry point and from the handler of kind \<open>K\<close>.
\<close>

theorem C3_opt_out_mutator_identity:
  assumes "deref w p = Some n" and "discriminant n = Enumerated K"
    and "well_formed d w p" and "d \<le> fuel"
  shows
    "OptOutMutator_mutate_Statement fuel no_overrides p w = Some (Inr (p, w)) \<and>
     OptOutMutator_mutate (OptOutMutator_mutate_Statement fuel no_overrides) K p w
       = Some (Inr (p, w))"
proof -
  have "\<And>c. c \<in> set (constituents n) \<Longrightarrow>
      OptOutMutator_mutate_Statement fuel no_overrides c w = Some (Inr (c, w))"
    using assms by (auto intro!: mutate_Statement_identity [where d = "d - 1"]
        dest: well_formed_constituents)
  then have "identity_rewrite (OptOutMutator_mutate_Statement fuel no_overrides) p w
      = Some (Inr (p, w))"
    using assms(1) by (simp add: identity_rewrite_unchanged)
  then show ?thesis
    using assms by (simp add: mutate_Statement_identity OptOutMutator_mutate_def)
qed

theorem C3_witness:
  "deref example_world (Addr 3) = Some unary_node \<and>
   discriminant unary_node = Enumerated UnaryOp \<and>
   well_formed (Suc (Suc 0)) example_world (Addr 3) \<and>
   OptOutMutator_mutate_Statement (Suc (Suc 0)) no_overrides (Addr 3) example_world
     = Some (Inr (Addr 3, example_world))"
proof -
  have n: "deref example_world (Addr 3) = Some unary_node"
    by (simp add: example_world_def)
  have K: "discriminant unary_node = Enumerated UnaryOp"
    by (simp add: unary_node_def)
  from C3_opt_out_mutator_identity [OF n K example_well_formed(3) order_refl]
  show ?thesis using n K example_well_formed(3) by simp
qed

text \<open>
  C6. Applying \<^verbatim>\<open>OptOutMutator\<close> without overrides to a fusion whose statements are well
  formed to depth \<open>d\<close>, on a fusion for which replacing a statement by itself changes
  nothing, returns, and the fusion and state it returns are the ones it was given; they
  are structurally equal to the input.
\<close>

theorem C6_round_trip:
  assumes "list_all (well_formed d w) (statements f)" and "d \<le> fuel"
    and "\<And>s g. replace s s g = g"
  shows
    "OptOutMutator_mutate_Fusion fuel no_overrides replace f w = Some (Inr (f, w)) \<and>
     (case OptOutMutator_mutate_Fusion fuel no_overrides replace f w of
        Some (Inr r) \<Rightarrow> fusion_same_structure d (f, w) r
      | Some (Inl e) \<Rightarrow> False
      | None \<Rightarrow> False)"
proof -
  have run: "OptOutMutator_mutate_Fusion fuel no_overrides replace f w = Some (Inr (f, w))"
    unfolding OptOutMutator_mutate_Fusion_def
    using assms by (intro mutate_each_identity) (auto simp: list_all_iff mutate_Statement_identity)
  have "fusion_same_structure d (f, w) (f, w)"
    using assms(1)
    by (simp add: fusion_same_structure_def list_all2_same list_all_iff same_structure_refl)
  with run show ?thesis by simp
qed

theorem C6_witness:
  "list_all (well_formed (Suc (Suc 0)) example_world) (statements example_fusion) \<and>
   (\<forall>s g. replace_statement s s g = g) \<and>
   OptOutMutator_mutate_Fusion (Suc (Suc 0)) no_overrides replace_statement
     example_fusion example_world = Some (Inr (example_fusion, example_world))"
proof -
  have wf: "list_all (well_formed (Suc (Suc 0)) example_world) (statements example_fusion)"
    using example_well_formed by (simp add: example_fusion_def)
  have same: "\<And>s g. replace_statement s s g = g"
    by (rule replace_statement_same)
  from C6_round_trip [of "Suc (Suc 0)" example_world example_fusion "Suc (Suc 0)"
      replace_statement, OF wf order_refl same]
  show ?thesis using wf by (simp add: replace_statement_same)
qed

end
